theory Spec2Isabelle
  imports Complex_Main "HOL-Library.AList"
begin

section \<open>Values, exceptions and byte strings\<close>

text \<open>
  The program is \<^verbatim>\<open>base.py\<close>: a protocol handler (decoder and encoder of a Redis-like
  wire format), a key-value server with six commands and its connection loop.

  The handler table of \<^verbatim>\<open>ProtocolHandler\<close> is keyed by the one-character strings
  \<^verbatim>\<open>'+'\<close>, \<^verbatim>\<open>'-'\<close>, ... and the decoder strips line ends with
  \<^verbatim>\<open>rstrip('\r\n')\<close> from what a file opened in mode \<^verbatim>\<open>'rwb'\<close> returns. Both only
  work where the byte string type is \<^verbatim>\<open>str\<close>, so the model follows the Python 2 reading
  of the source: \<^verbatim>\<open>bytes\<close> is \<^verbatim>\<open>str\<close>, \<^verbatim>\<open>unicode\<close> is a type of its own, and
  \<^verbatim>\<open>zip\<close> returns a list.

  A byte string is a \<^typ>\<open>string\<close> (a list of 8-bit characters). A text string
  (\<^verbatim>\<open>unicode\<close>) is represented by its UTF-8 bytes.

  Python 2 has two integer types: \<^verbatim>\<open>int\<close>, a machine word, and \<^verbatim>\<open>long\<close>, which is
  unbounded. \<^verbatim>\<open>int(s)\<close> returns an \<^verbatim>\<open>int\<close> when the number fits the word and a
  \<^verbatim>\<open>long\<close> otherwise; \<^verbatim>\<open>sys.maxint\<close> is taken to be \<open>2\<^sup>6\<^sup>3 - 1\<close>, its value on a
  64-bit Unix platform. A \<^verbatim>\<open>float\<close> is a finite number, represented by its exact value
  as a rational, an infinity, or not a number.

  The elements of a dict or a set are kept in a list, in the order in which iteration
  yields them; keys are compared by equality of the model (Python's cross-type equalities
  such as \<^verbatim>\<open>1 == True\<close> or \<^verbatim>\<open>1 == 1L\<close> are not modelled; the decoder produces
  neither booleans nor text strings nor floats, and a \<^verbatim>\<open>long\<close> only beyond the word).
\<close>

datatype pyfloat = Finite rat | PosInf | NegInf | NaN

datatype pyval =
    PNone
  | PBytes string
  | PUnicode string
  | PBool bool
  | PInt int
  | PLong int
  | PFloat pyfloat
  | PError pyval
  | PList "pyval list"
  | PTuple "pyval list"
  | PDict "(pyval \<times> pyval) list"
  | PSet "pyval list"
  | PDatetime string
  | PObject string

text \<open>
  \<^term>\<open>PInt i\<close> is an \<^verbatim>\<open>int\<close> and \<^term>\<open>PLong i\<close> a \<^verbatim>\<open>long\<close>.
  \<^term>\<open>PError m\<close> is the named tuple \<^verbatim>\<open>Error(message=m)\<close>. \<^term>\<open>PDatetime s\<close> is a
  \<^verbatim>\<open>datetime.datetime\<close> whose \<^verbatim>\<open>str()\<close> is \<open>s\<close>. \<^term>\<open>PObject t\<close> is a value
  of any other type, named by its type, for example a \<^verbatim>\<open>datetime.date\<close>; it is
  taken to be hashable and to have no method \<^verbatim>\<open>split\<close> or \<^verbatim>\<open>upper\<close>.

  \<^verbatim>\<open>CommandError.__init__\<close> stores its argument in the attribute \<^verbatim>\<open>message\<close> and
  calls the initialiser of \<^verbatim>\<open>Exception\<close> with no argument, so the \<^verbatim>\<open>args\<close> of the
  exception is the empty tuple. The exception carries both.
\<close>

datatype exc =
    Disconnect
  | CommandError pyval "pyval list"
  | KeyError
  | ValueError
  | TypeError
  | AttributeError
  | IndexError
  | OverflowError

definition command_error :: "string \<Rightarrow> exc" where
  "command_error message = CommandError (PBytes message) []"

fun is_CommandError :: "exc \<Rightarrow> bool" where
  "is_CommandError (CommandError m a) = True"
| "is_CommandError _ = False"

fun hashable :: "pyval \<Rightarrow> bool" where
  "hashable (PList xs) = False"
| "hashable (PDict kvs) = False"
| "hashable (PSet xs) = False"
| "hashable (PTuple xs) = list_all hashable xs"
| "hashable (PError m) = hashable m"
| "hashable v = True"

definition CR :: char where "CR = CHR 0x0D"
definition LF :: char where "LF = CHR 0x0A"
definition crlf :: string where "crlf = [CR, LF]"

subsection \<open>Decimal numerals: \<^verbatim>\<open>%d\<close> and \<^verbatim>\<open>int()\<close>\<close>

definition digit_char :: "nat \<Rightarrow> char" where
  "digit_char d = ''0123456789'' ! d"

fun digits :: "nat \<Rightarrow> string" where
  "digits n = (if n < 10 then [digit_char n] else digits (n div 10) @ [digit_char (n mod 10)])"

declare digits.simps [simp del]

definition str_of_int :: "int \<Rightarrow> string" where
  "str_of_int i = (if i < 0 then CHR ''-'' # digits (nat (- i)) else digits (nat i))"

definition is_space :: "char \<Rightarrow> bool" where
  "is_space c = (c \<in> set [CHR '' '', CHR 0x09, CHR 0x0A, CHR 0x0B, CHR 0x0C, CHR 0x0D])"

definition is_digit :: "char \<Rightarrow> bool" where
  "is_digit c = (c \<in> set ''0123456789'')"

definition digit_val :: "char \<Rightarrow> nat" where
  "digit_val c = of_char c - 48"

definition strip :: "string \<Rightarrow> string" where
  "strip s = dropWhile is_space (rev (dropWhile is_space (rev s)))"

definition nat_of_digits :: "string \<Rightarrow> nat" where
  "nat_of_digits ds = foldl (\<lambda>a c. 10 * a + digit_val c) 0 ds"

text \<open>
  \<^verbatim>\<open>int(s)\<close> on a byte string: surrounding whitespace is skipped, one sign is allowed,
  and the rest must be a non-empty run of decimal digits; anything else raises
  \<^verbatim>\<open>ValueError\<close>. What Python 2 accepts beyond that, such as whitespace between the sign
  and the digits, is not modelled.
\<close>

definition unsigned_int :: "string \<Rightarrow> exc + int" where
  "unsigned_int ds =
     (if ds \<noteq> [] \<and> list_all is_digit ds then Inr (int (nat_of_digits ds)) else Inl ValueError)"

definition py_int :: "string \<Rightarrow> exc + int" where
  "py_int s =
     (case strip s of
        [] \<Rightarrow> Inl ValueError
      | c # cs \<Rightarrow>
          if c = CHR ''-'' then (case unsigned_int cs of Inl e \<Rightarrow> Inl e | Inr n \<Rightarrow> Inr (- n))
          else if c = CHR ''+'' then unsigned_int cs
          else unsigned_int (c # cs))"

text \<open>
  The value of \<^verbatim>\<open>int(s)\<close> as a Python object: an \<^verbatim>\<open>int\<close> within the machine word,
  a \<^verbatim>\<open>long\<close> beyond it.
\<close>

definition maxint :: int where
  "maxint = 2 ^ 63 - 1"

definition py_number :: "int \<Rightarrow> pyval" where
  "py_number n = (if - maxint - 1 \<le> n \<and> n \<le> maxint then PInt n else PLong n)"

text \<open>
  \<^verbatim>\<open>'%d' % x\<close> for a float \<open>x\<close>: the number is cut to an integer towards zero;
  an infinity raises \<^verbatim>\<open>OverflowError\<close> and not-a-number raises \<^verbatim>\<open>ValueError\<close>.
\<close>

fun percent_d_float :: "pyfloat \<Rightarrow> exc + string" where
  "percent_d_float (Finite q) = Inr (str_of_int (if 0 \<le> q then \<lfloor>q\<rfloor> else \<lceil>q\<rceil>))"
| "percent_d_float PosInf = Inl OverflowError"
| "percent_d_float NegInf = Inl OverflowError"
| "percent_d_float NaN = Inl ValueError"

subsection \<open>The socket file\<close>

text \<open>
  The input side of the socket file is the list of the bytes that the peer sends before it
  closes the connection. \<^verbatim>\<open>read(n)\<close> returns \<open>n\<close> bytes, or fewer when the stream ends
  first (all of them for a negative \<open>n\<close>); \<^verbatim>\<open>readline()\<close> returns the bytes up to and
  including the first line feed, or all of them when there is none. Both return what is
  read together with the rest of the stream.
\<close>

definition read :: "int \<Rightarrow> string \<Rightarrow> string \<times> string" where
  "read n inp = (if n < 0 then (inp, []) else (take (nat n) inp, drop (nat n) inp))"

fun readline :: "string \<Rightarrow> string \<times> string" where
  "readline [] = ([], [])"
| "readline (c # cs) =
     (if c = LF then ([c], cs) else (c # fst (readline cs), snd (readline cs)))"

definition rstrip :: "string \<Rightarrow> string" where
  "rstrip s = rev (dropWhile (\<lambda>c. c = CR \<or> c = LF) (rev s))"

text \<open>\<^verbatim>\<open>s[:-2]\<close>: all but the last two bytes, empty when there are at most two.\<close>

definition drop_last2 :: "string \<Rightarrow> string" where
  "drop_last2 s = take (length s - 2) s"

text \<open>\<^verbatim>\<open>xs[::2]\<close> and \<^verbatim>\<open>xs[1::2]\<close>.\<close>

fun slice_even :: "'a list \<Rightarrow> 'a list" where
  "slice_even [] = []"
| "slice_even [x] = [x]"
| "slice_even (x # y # xs) = x # slice_even xs"

fun slice_odd :: "'a list \<Rightarrow> 'a list" where
  "slice_odd [] = []"
| "slice_odd [x] = []"
| "slice_odd (x # y # xs) = y # slice_odd xs"

text \<open>
  \<^verbatim>\<open>d[k] = v\<close> on a dict: hashing an unhashable key raises \<^verbatim>\<open>TypeError\<close>; a key that
  is present keeps its place and gets the new value, a new key is added.
\<close>

definition dict_setitem :: "(pyval \<times> pyval) list \<Rightarrow> pyval \<Rightarrow> pyval \<Rightarrow> exc + (pyval \<times> pyval) list" where
  "dict_setitem d k v = (if hashable k then Inr (AList.update k v d) else Inl TypeError)"

text \<open>\<^verbatim>\<open>dict(pairs)\<close>: the pairs are stored in order.\<close>

fun dict_of :: "(pyval \<times> pyval) list \<Rightarrow> (pyval \<times> pyval) list \<Rightarrow> exc + (pyval \<times> pyval) list" where
  "dict_of d [] = Inr d"
| "dict_of d ((k, v) # ps) =
     (case dict_setitem d k v of Inl e \<Rightarrow> Inl e | Inr d' \<Rightarrow> dict_of d' ps)"


section \<open>The protocol handler: decoding\<close>

lemma readline_rest_le: "length (snd (readline s)) \<le> length s"
  by (induction s) auto

definition readline_int :: "string \<Rightarrow> exc + (int \<times> string)" where
  "readline_int inp =
     (case py_int (rstrip (fst (readline inp))) of
        Inl e \<Rightarrow> Inl e
      | Inr n \<Rightarrow> Inr (n, snd (readline inp)))"

text \<open>
  \<^verbatim>\<open>int(socket_file.readline().rstrip('\r\n'))\<close> is \<^const>\<open>readline_int\<close>. The
  handlers of the scalar frames take the stream after the tag byte.
\<close>

definition handle_simple_string :: "string \<Rightarrow> exc + (pyval \<times> string)" where
  "handle_simple_string inp = Inr (PBytes (rstrip (fst (readline inp))), snd (readline inp))"

definition handle_error :: "string \<Rightarrow> exc + (pyval \<times> string)" where
  "handle_error inp = Inr (PError (PBytes (rstrip (fst (readline inp)))), snd (readline inp))"

definition handle_integer :: "string \<Rightarrow> exc + (pyval \<times> string)" where
  "handle_integer inp =
     (case readline_int inp of Inl e \<Rightarrow> Inl e | Inr (n, rest) \<Rightarrow> Inr (py_number n, rest))"

definition handle_string :: "string \<Rightarrow> exc + (pyval \<times> string)" where
  "handle_string inp =
     (case readline_int inp of
        Inl e \<Rightarrow> Inl e
      | Inr (len, rest) \<Rightarrow>
          if len = - 1 then Inr (PNone, rest)
          else Inr (PBytes (drop_last2 (fst (read (len + 2) rest))), snd (read (len + 2) rest)))"

text \<open>
  \<^verbatim>\<open>handle_request\<close> reads the tag byte (\<^verbatim>\<open>read(1)\<close>; nothing to read raises
  \<^verbatim>\<open>Disconnect\<close>) and looks the handler up; a \<^verbatim>\<open>KeyError\<close> of the lookup, or of the
  handler, becomes \<^verbatim>\<open>CommandError('bad request')\<close>. The table has no entry for
  \<^verbatim>\<open>'&'\<close>: \<^verbatim>\<open>handle_set\<close> is defined in the class and never registered.

  \<^verbatim>\<open>handle_array\<close> and \<^verbatim>\<open>handle_dict\<close> call \<^verbatim>\<open>handle_request\<close> once for each
  element; \<open>handle_elems k\<close> is that comprehension over \<^verbatim>\<open>range(k)\<close>. Each call after
  the first one starts where the one before has stopped, so the recursion is nested. The
  test \<open>length inp' < length inp\<close> in \<open>handle_elems\<close> makes the termination evident; it
  always succeeds (\<open>handle_request_consumes\<close>), and \<open>handle_elems_Suc\<close> is the
  equation without it. A count so large that \<^verbatim>\<open>range\<close> cannot build its list, where
  Python raises, is not modelled: the comprehension then ends with \<^verbatim>\<open>Disconnect\<close>
  where the stream ends.
\<close>

definition except_KeyError :: "exc + 'a \<Rightarrow> exc + 'a" where
  "except_KeyError r = (case r of Inl KeyError \<Rightarrow> Inl (command_error ''bad request'') | _ \<Rightarrow> r)"

function handle_request :: "string \<Rightarrow> exc + (pyval \<times> string)"
  and handle_elems :: "nat \<Rightarrow> string \<Rightarrow> exc + (pyval list \<times> string)"
where
  "handle_request [] = Inl Disconnect"
| "handle_request (first_byte # inp) = except_KeyError
     (if first_byte = CHR ''+'' then handle_simple_string inp
      else if first_byte = CHR ''-'' then handle_error inp
      else if first_byte = CHR '':'' then handle_integer inp
      else if first_byte = CHR ''$'' then handle_string inp
      else if first_byte = CHR ''*'' then
        (case readline_int inp of
           Inl e \<Rightarrow> Inl e
         | Inr (num_elements, rest) \<Rightarrow>
             (case handle_elems (nat num_elements) rest of
                Inl e \<Rightarrow> Inl e
              | Inr (elements, rest') \<Rightarrow> Inr (PList elements, rest')))
      else if first_byte = CHR ''%'' then
        (case readline_int inp of
           Inl e \<Rightarrow> Inl e
         | Inr (num_items, rest) \<Rightarrow>
             (case handle_elems (nat (num_items * 2)) rest of
                Inl e \<Rightarrow> Inl e
              | Inr (elements, rest') \<Rightarrow>
                  (case dict_of [] (zip (slice_even elements) (slice_odd elements)) of
                     Inl e \<Rightarrow> Inl e
                   | Inr d \<Rightarrow> Inr (PDict d, rest'))))
      else Inl KeyError)"
| "handle_elems 0 inp = Inr ([], inp)"
| "handle_elems (Suc k) inp =
     (case handle_request inp of
        Inl e \<Rightarrow> Inl e
      | Inr (v, inp') \<Rightarrow>
          if length inp' < length inp then
            (case handle_elems k inp' of
               Inl e \<Rightarrow> Inl e
             | Inr (vs, inp'') \<Rightarrow> Inr (v # vs, inp''))
          else Inl Disconnect)"
  by pat_completeness auto
termination
proof (relation "measures [\<lambda>x. case x of Inl inp \<Rightarrow> length inp | Inr (k, inp) \<Rightarrow> length inp,
                            \<lambda>x. case x of Inl inp \<Rightarrow> 0 | Inr (k, inp) \<Rightarrow> Suc k]", goal_cases)
  case 1
  show ?case by simp
next
  case (2 first_byte inp x2 num_elements rest)
  then have "rest = snd (readline inp)"
    by (auto simp: readline_int_def split: sum.splits)
  then show ?case using readline_rest_le [of inp] by simp
next
  case (3 first_byte inp x2 num_items rest)
  then have "rest = snd (readline inp)"
    by (auto simp: readline_int_def split: sum.splits)
  then show ?case using readline_rest_le [of inp] by simp
next
  case (4 k inp)
  show ?case by simp
next
  case (5 k inp x2 v inp')
  then show ?case by simp
qed

lemma read_rest_le: "length (snd (read n s)) \<le> length s"
  by (simp add: read_def)

lemma readline_int_le: "readline_int inp = Inr (n, rest) \<Longrightarrow> length rest \<le> length inp"
  using readline_rest_le [of inp] by (auto simp: readline_int_def split: sum.splits)

lemma except_KeyError_Inr [simp]: "except_KeyError r = Inr x \<longleftrightarrow> r = Inr x"
  by (auto simp: except_KeyError_def split: sum.splits exc.splits)

lemma scalar_le:
  "handle_simple_string inp = Inr (v, rest) \<Longrightarrow> length rest \<le> length inp"
  "handle_error inp = Inr (v, rest) \<Longrightarrow> length rest \<le> length inp"
  "handle_integer inp = Inr (v, rest) \<Longrightarrow> length rest \<le> length inp"
  "handle_string inp = Inr (v, rest) \<Longrightarrow> length rest \<le> length inp"
  using readline_rest_le [of inp]
  by (auto simp: handle_simple_string_def handle_error_def handle_integer_def handle_string_def read_def
      dest!: readline_int_le split: sum.splits if_splits)

lemma decode_consumes:
  "(\<forall>v rest. handle_request inp = Inr (v, rest) \<longrightarrow> length rest < length inp)"
  "(\<forall>vs rest. handle_elems k inp2 = Inr (vs, rest) \<longrightarrow> length rest \<le> length inp2)"
proof (induction inp and k inp2 rule: handle_request_handle_elems.induct)
  case 1
  then show ?case by simp
next
  case (2 first_byte inp)
  show ?case
  proof (intro allI impI)
    fix v rest
    assume h: "handle_request (first_byte # inp) = Inr (v, rest)"
    consider (scalar) "first_byte \<in> set ''+-:$''"
      | (array) "first_byte = CHR ''*''" | (dict) "first_byte = CHR ''%''"
      | (other) "first_byte \<notin> set ''+-:$*%''"
      by auto
    then have "length rest \<le> length inp"
    proof cases
      case scalar
      with h show ?thesis by (auto dest: scalar_le)
    next
      case array
      with h obtain n r0 es where r: "readline_int inp = Inr (n, r0)"
        and e: "handle_elems (nat n) r0 = Inr (es, rest)"
        by (auto split: sum.splits)
      from 2(1) array r e have "length rest \<le> length r0" by simp
      with readline_int_le [OF r] show ?thesis by simp
    next
      case dict
      with h obtain n r0 es where r: "readline_int inp = Inr (n, r0)"
        and e: "handle_elems (nat (n * 2)) r0 = Inr (es, rest)"
        by (auto split: sum.splits)
      from 2(2) dict r e have "length rest \<le> length r0" by simp
      with readline_int_le [OF r] show ?thesis by simp
    next
      case other
      with h show ?thesis by auto
    qed
    then show "length rest < length (first_byte # inp)" by simp
  qed
next
  case (3 inp)
  then show ?case by simp
next
  case (4 k inp)
  show ?case
  proof (intro allI impI)
    fix vs rest
    assume h: "handle_elems (Suc k) inp = Inr (vs, rest)"
    then obtain v r1 vs' where a: "handle_request inp = Inr (v, r1)"
      and lt: "length r1 < length inp" and b: "handle_elems k r1 = Inr (vs', rest)"
      by (auto split: sum.splits if_splits)
    from 4(2) [OF a refl lt] b have "length rest \<le> length r1" by blast
    with lt show "length rest \<le> length inp" by simp
  qed
qed

lemma handle_request_consumes:
  "handle_request inp = Inr (v, rest) \<Longrightarrow> length rest < length inp"
  using decode_consumes(1) by blast

lemma handle_elems_Suc:
  "handle_elems (Suc k) inp =
     (case handle_request inp of
        Inl e \<Rightarrow> Inl e
      | Inr (v, inp') \<Rightarrow>
          (case handle_elems k inp' of
             Inl e \<Rightarrow> Inl e
           | Inr (vs, inp'') \<Rightarrow> Inr (v # vs, inp'')))"
  by (auto split: sum.splits dest: handle_request_consumes)


declare handle_elems.simps(2) [simp del]


section \<open>The protocol handler: encoding\<close>

text \<open>
  The module function \<^verbatim>\<open>encode\<close> returns the UTF-8 bytes of a text string and a byte
  string as it is; for anything else it falls off its end and returns \<^verbatim>\<open>None\<close>, which
  \<^verbatim>\<open>%s\<close> then renders as \<^verbatim>\<open>None\<close>.
\<close>

fun encode :: "pyval \<Rightarrow> string option" where
  "encode (PUnicode s) = Some s"
| "encode (PBytes s) = Some s"
| "encode _ = None"

definition percent_s :: "string option \<Rightarrow> string" where
  "percent_s r = (case r of None \<Rightarrow> ''None'' | Some s \<Rightarrow> s)"

definition write_bytes :: "string \<Rightarrow> string" where
  "write_bytes data = ''$'' @ str_of_int (int (length data)) @ crlf @ data @ crlf"

text \<open>
  \<^verbatim>\<open>_write(buf, data)\<close> appends to the buffer or raises; \<open>ph_write data\<close> is what it
  appends when it returns, and the exception when it raises. The buffer belongs to
  \<^verbatim>\<open>write_response\<close>, so what was appended before an exception is lost with it. The
  branches are those of the source, in its order: byte string, text string, boolean,
  \<^verbatim>\<open>int\<close> or \<^verbatim>\<open>float\<close>, \<^verbatim>\<open>Error\<close>, list or tuple, dict, set, \<^verbatim>\<open>None\<close>, and
  \<^verbatim>\<open>datetime.datetime\<close>, which writes its \<^verbatim>\<open>str()\<close>, a byte string. A value of any
  other type matches no branch, and nothing is written; a \<^verbatim>\<open>long\<close> is such a value,
  since the test of the numeric branch is \<^verbatim>\<open>isinstance(data, (int, float))\<close>.

  The elements of a list, tuple, dict or set are written in turn; \<open>write_all\<close> joins
  what they write and stops at the first exception.
\<close>

fun write_all :: "(exc + string) list \<Rightarrow> exc + string" where
  "write_all [] = Inr []"
| "write_all (r # rs) =
     (case r of
        Inl e \<Rightarrow> Inl e
      | Inr bs \<Rightarrow> (case write_all rs of Inl e \<Rightarrow> Inl e | Inr bs' \<Rightarrow> Inr (bs @ bs')))"

definition after_header :: "string \<Rightarrow> exc + string \<Rightarrow> exc + string" where
  "after_header header r = (case r of Inl e \<Rightarrow> Inl e | Inr bs \<Rightarrow> Inr (header @ bs))"

fun ph_write :: "pyval \<Rightarrow> exc + string" where
  "ph_write (PBytes data) = Inr (write_bytes data)"
| "ph_write (PUnicode bdata) =
     Inr (''^'' @ str_of_int (int (length bdata)) @ crlf @ bdata @ crlf)"
| "ph_write (PBool b) = Inr ('':'' @ str_of_int (if b then 1 else 0) @ crlf)"
| "ph_write (PInt i) = Inr ('':'' @ str_of_int i @ crlf)"
| "ph_write (PFloat x) =
     (case percent_d_float x of Inl e \<Rightarrow> Inl e | Inr ds \<Rightarrow> Inr ('':'' @ ds @ crlf))"
| "ph_write (PError message) = Inr (''-'' @ percent_s (encode message) @ crlf)"
| "ph_write (PList xs) =
     after_header (''*'' @ str_of_int (int (length xs)) @ crlf) (write_all (map ph_write xs))"
| "ph_write (PTuple xs) =
     after_header (''*'' @ str_of_int (int (length xs)) @ crlf) (write_all (map ph_write xs))"
| "ph_write (PDict kvs) =
     after_header (''%'' @ str_of_int (int (length kvs)) @ crlf)
       (write_all (map (\<lambda>p. write_all [ph_write (fst p), ph_write (snd p)]) kvs))"
| "ph_write (PSet xs) =
     after_header (''&'' @ str_of_int (int (length xs)) @ crlf) (write_all (map ph_write xs))"
| "ph_write PNone = Inr (''$-1'' @ crlf)"
| "ph_write (PDatetime s) = Inr (write_bytes s)"
| "ph_write (PLong i) = Inr []"
| "ph_write (PObject t) = Inr []"

text \<open>
  \<^verbatim>\<open>write_response\<close> serialises into a fresh buffer, passes the buffer's bytes to
  \<^verbatim>\<open>socket_file.write\<close> and then calls \<^verbatim>\<open>socket_file.flusth()\<close>. A file object has
  no attribute of that name, so the call raises \<^verbatim>\<open>AttributeError\<close> every time. When
  \<^verbatim>\<open>_write\<close> raises, nothing is passed to the file. The result is the exception and the
  bytes written to the file so far.
\<close>

definition write_response :: "string \<Rightarrow> pyval \<Rightarrow> (exc + unit) \<times> string" where
  "write_response written data =
     (case ph_write data of
        Inl e \<Rightarrow> (Inl e, written)
      | Inr bs \<Rightarrow> (Inl AttributeError, written @ bs))"

section \<open>The server\<close>

text \<open>
  The store \<^verbatim>\<open>self._kv\<close> is a dict: a list of key-value pairs with distinct keys. A
  handler takes the store and its positional arguments and returns its value, or the
  exception it raises, together with the store it leaves. Calling a handler with the wrong
  number of arguments raises \<^verbatim>\<open>TypeError\<close>, and so does hashing an unhashable key.
\<close>

type_synonym store = "(pyval \<times> pyval) list"

type_synonym handler = "store \<Rightarrow> pyval list \<Rightarrow> (exc + pyval) \<times> store"

definition dict_get :: "store \<Rightarrow> pyval \<Rightarrow> pyval" where
  "dict_get kv key = (case map_of kv key of None \<Rightarrow> PNone | Some v \<Rightarrow> v)"

fun get :: handler where
  "get kv [key] = (if hashable key then (Inr (dict_get kv key), kv) else (Inl TypeError, kv))"
| "get kv args = (Inl TypeError, kv)"

fun set_cmd :: handler where
  "set_cmd kv [key, val] =
     (case dict_setitem kv key val of
        Inl e \<Rightarrow> (Inl e, kv)
      | Inr kv' \<Rightarrow> (Inr (PInt 1), kv'))"
| "set_cmd kv args = (Inl TypeError, kv)"

fun delete :: handler where
  "delete kv [key] =
     (if \<not> hashable key then (Inl TypeError, kv)
      else if map_of kv key \<noteq> None then (Inr (PInt 1), AList.delete key kv)
      else (Inr (PInt 0), kv))"
| "delete kv args = (Inl TypeError, kv)"

fun flush :: handler where
  "flush kv [] = (Inr (PInt (int (length kv))), [])"
| "flush kv args = (Inl TypeError, kv)"

fun mget_values :: "store \<Rightarrow> pyval list \<Rightarrow> exc + pyval list" where
  "mget_values kv [] = Inr []"
| "mget_values kv (key # keys) =
     (if hashable key then
        (case mget_values kv keys of Inl e \<Rightarrow> Inl e | Inr vs \<Rightarrow> Inr (dict_get kv key # vs))
      else Inl TypeError)"

definition mget :: handler where
  "mget kv keys = (case mget_values kv keys of Inl e \<Rightarrow> (Inl e, kv) | Inr vs \<Rightarrow> (Inr (PList vs), kv))"

text \<open>
  \<^verbatim>\<open>mset\<close> zips the arguments at even places with those at odd places (\<^verbatim>\<open>zip\<close> stops
  at the shorter list), stores each pair in turn and returns the number of pairs. A
  \<^verbatim>\<open>TypeError\<close> of an unhashable key leaves the pairs before it stored.
\<close>

fun mset_store :: "store \<Rightarrow> (pyval \<times> pyval) list \<Rightarrow> exc option \<times> store" where
  "mset_store kv [] = (None, kv)"
| "mset_store kv ((key, val) # ps) =
     (case dict_setitem kv key val of
        Inl e \<Rightarrow> (Some e, kv)
      | Inr kv' \<Rightarrow> mset_store kv' ps)"

definition mset :: handler where
  "mset kv items =
     (let data = zip (slice_even items) (slice_odd items) in
      case mset_store kv data of
        (Some e, kv') \<Rightarrow> (Inl e, kv')
      | (None, kv') \<Rightarrow> (Inr (PInt (int (length data))), kv'))"

definition get_commands :: "(string \<times> handler) list" where
  "get_commands =
     [(''GET'', get), (''SET'', set_cmd), (''DELETE'', delete),
      (''FLUSH'', flush), (''MGET'', mget), (''MSET'', mset)]"

subsection \<open>Dispatch\<close>

text \<open>\<^verbatim>\<open>s.split()\<close> and \<^verbatim>\<open>s.upper()\<close> on ASCII.\<close>

fun split_from :: "string \<Rightarrow> string \<Rightarrow> string list" where
  "split_from cur [] = (if cur = [] then [] else [cur])"
| "split_from cur (c # cs) =
     (if is_space c then (if cur = [] then split_from [] cs else cur # split_from [] cs)
      else split_from (cur @ [c]) cs)"

definition split :: "string \<Rightarrow> string list" where
  "split s = split_from [] s"

definition upper_char :: "char \<Rightarrow> char" where
  "upper_char c =
     (if 97 \<le> (of_char c :: nat) \<and> (of_char c :: nat) \<le> 122
      then char_of ((of_char c :: nat) - 32) else c)"

definition upper :: "string \<Rightarrow> string" where
  "upper s = map upper_char s"

fun py_split :: "pyval \<Rightarrow> exc + pyval list" where
  "py_split (PBytes s) = Inr (map PBytes (split s))"
| "py_split (PUnicode s) = Inr (map PUnicode (split s))"
| "py_split v = Inl AttributeError"

fun py_upper :: "pyval \<Rightarrow> exc + pyval" where
  "py_upper (PBytes s) = Inr (PBytes (upper s))"
| "py_upper (PUnicode s) = Inr (PUnicode (upper s))"
| "py_upper v = Inl AttributeError"

fun text_of :: "pyval \<Rightarrow> string" where
  "text_of (PBytes s) = s"
| "text_of (PUnicode s) = s"
| "text_of v = []"

fun unrecognized :: "pyval \<Rightarrow> pyval" where
  "unrecognized (PUnicode s) = PUnicode (''Unrecognized command: '' @ s)"
| "unrecognized v = PBytes (''Unrecognized command: '' @ text_of v)"

text \<open>
  \<^verbatim>\<open>get_response\<close>: a request that is not a list is split on whitespace, and whatever
  that raises becomes a \<^verbatim>\<open>CommandError\<close>; an empty request is a \<^verbatim>\<open>CommandError\<close>;
  the first token in upper case (an \<^verbatim>\<open>AttributeError\<close> when it has no \<^verbatim>\<open>upper\<close>) is
  looked up in the command table, where a text string finds the byte string it equals;
  the handler is called with the other tokens.
\<close>

definition request_tokens :: "pyval \<Rightarrow> exc + pyval list" where
  "request_tokens data =
     (case data of
        PList xs \<Rightarrow> Inr xs
      | _ \<Rightarrow>
          (case py_split data of
             Inl e \<Rightarrow> Inl (command_error ''Request must be list or simple string.'')
           | Inr xs \<Rightarrow> Inr xs))"

definition get_response :: "store \<Rightarrow> pyval \<Rightarrow> (exc + pyval) \<times> store" where
  "get_response kv data =
     (case request_tokens data of
        Inl e \<Rightarrow> (Inl e, kv)
      | Inr [] \<Rightarrow> (Inl (command_error ''Missing command''), kv)
      | Inr (d0 # args) \<Rightarrow>
          (case py_upper d0 of
             Inl e \<Rightarrow> (Inl e, kv)
           | Inr command \<Rightarrow>
               (case map_of get_commands (text_of command) of
                  None \<Rightarrow> (Inl (CommandError (unrecognized command) []), kv)
                | Some handler \<Rightarrow> handler kv args)))"

subsection \<open>The connection loop\<close>

text \<open>
  The state of a connection: the bytes still to be read from the socket file, the bytes
  written to it, and the store. The loop ends by \<^verbatim>\<open>break\<close> on \<^verbatim>\<open>Disconnect\<close>
  (\<open>Closed\<close>) or with an exception that nothing in \<^verbatim>\<open>connection_handler\<close> catches
  (\<open>Uncaught\<close>). \<^verbatim>\<open>except CommandError as exc: resp = Error(exc.args[0])\<close> indexes
  the \<^verbatim>\<open>args\<close> of the exception, which raises \<^verbatim>\<open>IndexError\<close> when it is empty.
  When decoding raises, the state returned is the one before the frame was read.
\<close>

record conn =
  to_read :: string
  written :: string
  kv :: store

datatype outcome = Closed | Uncaught exc

definition dispatch :: "store \<Rightarrow> pyval \<Rightarrow> (exc + pyval) \<times> store" where
  "dispatch s data =
     (case get_response s data of
        (Inl (CommandError message args), s') \<Rightarrow>
          (case args of [] \<Rightarrow> (Inl IndexError, s') | a # _ \<Rightarrow> (Inr (PError a), s'))
      | (r, s') \<Rightarrow> (r, s'))"

function connection_handler :: "conn \<Rightarrow> outcome \<times> conn" where
  "connection_handler c =
     (case handle_request (to_read c) of
        Inl Disconnect \<Rightarrow> (Closed, c)
      | Inl e \<Rightarrow> (Uncaught e, c)
      | Inr (data, rest) \<Rightarrow>
          (case dispatch (kv c) data of
             (Inl e, s') \<Rightarrow> (Uncaught e, c\<lparr>to_read := rest, kv := s'\<rparr>)
           | (Inr resp, s') \<Rightarrow>
               (case write_response (written c) resp of
                  (Inl e, w') \<Rightarrow> (Uncaught e, c\<lparr>to_read := rest, written := w', kv := s'\<rparr>)
                | (Inr u, w') \<Rightarrow>
                    connection_handler (c\<lparr>to_read := rest, written := w', kv := s'\<rparr>))))"
  by pat_completeness auto
termination
  by (relation "measure (\<lambda>c. length (to_read c))")
    (auto simp: write_response_def dest: handle_request_consumes)

declare connection_handler.simps [simp del]


section \<open>Facts about the model\<close>

subsection \<open>Numerals\<close>

lemma digits_not_Nil: "digits n \<noteq> []"
  by (subst digits.simps) simp

lemma str_of_int_not_Nil: "str_of_int i \<noteq> []"
  by (simp add: str_of_int_def digits_not_Nil)

text \<open>
  \<^verbatim>\<open>int()\<close> reads back what \<^verbatim>\<open>%d\<close> writes, also behind a line end.
\<close>

lemma digit_char_props: "d < 10 \<Longrightarrow> is_digit (digit_char d) \<and> digit_val (digit_char d) = d \<and> \<not> is_space (digit_char d) \<and> digit_char d \<noteq> LF \<and> digit_char d \<noteq> CR \<and> digit_char d \<noteq> CHR ''-'' \<and> digit_char d \<noteq> CHR ''+''"
proof -
  assume "d < 10"
  then have "d = 0 \<or> d = 1 \<or> d = 2 \<or> d = 3 \<or> d = 4 \<or> d = 5 \<or> d = 6 \<or> d = 7 \<or> d = 8 \<or> d = 9"
    by arith
  then show ?thesis
    by (elim disjE) (simp_all add: digit_char_def is_digit_def digit_val_def is_space_def LF_def CR_def)
qed

lemma digits_all: "list_all (\<lambda>c. is_digit c \<and> \<not> is_space c \<and> c \<noteq> LF \<and> c \<noteq> CR \<and> c \<noteq> CHR ''-'' \<and> c \<noteq> CHR ''+'') (digits n)"
proof (induction n rule: digits.induct)
  case (1 n)
  show ?case
  proof (cases "n < 10")
    case True
    then show ?thesis using digit_char_props [of n] by (subst digits.simps) simp
  next
    case False
    then show ?thesis using 1 digit_char_props [of "n mod 10"] by (subst digits.simps) simp
  qed
qed

lemma nat_of_digits_snoc: "nat_of_digits (ds @ [c]) = 10 * nat_of_digits ds + digit_val c"
  by (simp add: nat_of_digits_def)

lemma nat_of_digits_digits: "nat_of_digits (digits n) = n"
proof (induction n rule: digits.induct)
  case (1 n)
  show ?case
  proof (cases "n < 10")
    case True
    then show ?thesis using digit_char_props [of n] by (subst digits.simps) (simp add: nat_of_digits_def)
  next
    case False
    then show ?thesis using 1 digit_char_props [of "n mod 10"]
      by (subst digits.simps) (simp add: nat_of_digits_snoc)
  qed
qed


lemma strip_id: "s \<noteq> [] \<Longrightarrow> list_all (\<lambda>c. \<not> is_space c) s \<Longrightarrow> strip s = s"
proof -
  assume ne: "s \<noteq> []" and a: "list_all (\<lambda>c. \<not> is_space c) s"
  then have "\<not> is_space (hd (rev s))" "\<not> is_space (hd s)"
    by (auto simp: list_all_iff hd_rev)
  then have "dropWhile is_space (rev s) = rev s" "dropWhile is_space s = s"
    by (simp_all add: dropWhile_eq_self_iff)
  then show ?thesis
    by (simp add: strip_def)
qed

lemma py_int_str_of_int: "py_int (str_of_int i) = Inr i"
proof -
  let ?P = "\<lambda>c. is_digit c \<and> \<not> is_space c \<and> c \<noteq> LF \<and> c \<noteq> CR \<and> c \<noteq> CHR ''-'' \<and> c \<noteq> CHR ''+''"
  have u: "unsigned_int (digits n) = Inr (int n)" for n
    using digits_all [of n] digits_not_Nil [of n]
    by (simp add: unsigned_int_def nat_of_digits_digits list_all_iff)
  have sp: "list_all (\<lambda>c. \<not> is_space c) (digits n)" for n
    using digits_all [of n] by (simp add: list_all_iff)
  have hd: "hd (digits n) \<noteq> CHR ''-'' \<and> hd (digits n) \<noteq> CHR ''+''" for n
    using digits_all [of n] digits_not_Nil [of n] by (cases "digits n") auto
  show ?thesis
  proof (cases "i < 0")
    case True
    have "\<not> is_space CHR ''-''" by (simp add: is_space_def)
    with sp [of "nat (- i)"] have "strip (CHR ''-'' # digits (nat (- i))) = CHR ''-'' # digits (nat (- i))"
      by (intro strip_id) simp_all
    with True u [of "nat (- i)"] show ?thesis
      by (simp add: py_int_def str_of_int_def)
  next
    case False
    from sp [of "nat i"] digits_not_Nil have "strip (digits (nat i)) = digits (nat i)"
      by (intro strip_id) simp_all
    with False u [of "nat i"] hd [of "nat i"] digits_not_Nil [of "nat i"] show ?thesis
      by (cases "digits (nat i)") (auto simp: py_int_def str_of_int_def)
  qed
qed

lemma readline_line: "LF \<notin> set l \<Longrightarrow> readline (l @ crlf @ rest) = (l @ crlf, rest)"
  by (induction l) (auto simp: crlf_def CR_def LF_def)

lemma rstrip_line: "l = [] \<or> (last l \<noteq> CR \<and> last l \<noteq> LF) \<Longrightarrow> rstrip (l @ crlf) = l"
  by (cases l rule: rev_cases) (auto simp: rstrip_def crlf_def)

lemma str_of_int_chars: "LF \<notin> set (str_of_int i) \<and> last (str_of_int i) \<noteq> CR \<and> last (str_of_int i) \<noteq> LF"
proof -
  have a: "LF \<notin> set (digits n) \<and> last (digits n) \<noteq> CR \<and> last (digits n) \<noteq> LF" for n
    using digits_all [of n] digits_not_Nil [of n] by (auto simp: list_all_iff) 
  show ?thesis using a [of "nat i"] a [of "nat (- i)"] digits_not_Nil
    by (auto simp: str_of_int_def LF_def)
qed

lemma readline_int_str_of_int: "readline_int (str_of_int i @ crlf @ rest) = Inr (i, rest)"
  using str_of_int_chars [of i]
  by (simp add: readline_int_def readline_line rstrip_line py_int_str_of_int)


subsection \<open>Slices\<close>




subsection \<open>Handlers\<close>

lemma length_update_new:
  "k \<notin> fst ` set al \<Longrightarrow> length (AList.update k v al) = Suc (length al)"
  by (induction al) auto


lemma mset_store_exc: "mset_store s ps = (Some e, s') \<Longrightarrow> e = TypeError"
  by (induction s ps rule: mset_store.induct) (auto simp: dict_setitem_def split: if_splits)

lemma mget_values_exc: "mget_values s ks = Inl e \<Longrightarrow> e = TypeError"
  by (induction ks arbitrary: e) (auto split: if_splits sum.splits)

text \<open>The only exception that a command handler raises is \<^verbatim>\<open>TypeError\<close>.\<close>

lemma handler_exc:
  "get s args = (Inl e, s') \<Longrightarrow> e = TypeError"
  "set_cmd s args = (Inl e, s') \<Longrightarrow> e = TypeError"
  "delete s args = (Inl e, s') \<Longrightarrow> e = TypeError"
  "flush s args = (Inl e, s') \<Longrightarrow> e = TypeError"
  "mget s args = (Inl e, s') \<Longrightarrow> e = TypeError"
  "mset s args = (Inl e, s') \<Longrightarrow> e = TypeError"
proof -
  show "get s args = (Inl e, s') \<Longrightarrow> e = TypeError"
    by (cases "(s, args)" rule: get.cases; auto split: if_splits)
  show "set_cmd s args = (Inl e, s') \<Longrightarrow> e = TypeError"
    by (cases "(s, args)" rule: set_cmd.cases; auto simp: dict_setitem_def split: if_splits)
  show "delete s args = (Inl e, s') \<Longrightarrow> e = TypeError"
    by (cases "(s, args)" rule: delete.cases; auto split: if_splits)
  show "flush s args = (Inl e, s') \<Longrightarrow> e = TypeError"
    by (cases "(s, args)" rule: flush.cases; auto)
  show "mget s args = (Inl e, s') \<Longrightarrow> e = TypeError"
    by (auto simp: mget_def split: sum.splits dest: mget_values_exc)
  show "mset s args = (Inl e, s') \<Longrightarrow> e = TypeError"
    by (auto simp: mset_def Let_def split: prod.splits option.splits dest: mset_store_exc)
qed

subsection \<open>Dispatch\<close>

lemma upper_commands:
  "upper ''GET'' = ''GET''" "upper ''SET'' = ''SET''" "upper ''DELETE'' = ''DELETE''"
  "upper ''FLUSH'' = ''FLUSH''" "upper ''MGET'' = ''MGET''" "upper ''MSET'' = ''MSET''"
  by code_simp+

lemma get_response_command:
  "get_response s (PList (PBytes ''GET'' # args)) = get s args"
  "get_response s (PList (PBytes ''SET'' # args)) = set_cmd s args"
  "get_response s (PList (PBytes ''DELETE'' # args)) = delete s args"
  "get_response s (PList (PBytes ''FLUSH'' # args)) = flush s args"
  "get_response s (PList (PBytes ''MGET'' # args)) = mget s args"
  "get_response s (PList (PBytes ''MSET'' # args)) = mset s args"
  by (simp_all add: get_response_def request_tokens_def upper_commands get_commands_def)

lemma py_upper_exc: "py_upper v = Inl e \<Longrightarrow> e = AttributeError"
  by (cases v) auto

text \<open>
  Every \<^verbatim>\<open>CommandError\<close> that leaves \<^verbatim>\<open>get_response\<close> is raised by
  \<^verbatim>\<open>get_response\<close> itself, before any handler runs: its \<^verbatim>\<open>args\<close> is empty and the
  store is untouched.
\<close>

lemma get_response_CommandError:
  assumes "get_response s data = (Inl (CommandError m a), s')"
  shows "a = [] \<and> s' = s"
proof -
  have h: "map_of get_commands name = Some f \<Longrightarrow> f s args \<noteq> (Inl (CommandError m a), s')"
    for f name args
    by (auto simp: get_commands_def split: if_splits dest: handler_exc)
  from assms show ?thesis
    by (auto simp: get_response_def request_tokens_def command_error_def
        split: sum.splits list.splits option.splits pyval.splits dest: h py_upper_exc)
qed

subsection \<open>Round trip of the values that the decoder returns\<close>

text \<open>
  The values below are those that \<^verbatim>\<open>handle_request\<close> can return and that have one
  encoding: \<^verbatim>\<open>None\<close>, byte strings, integers of type \<^verbatim>\<open>int\<close>, an \<^verbatim>\<open>Error\<close> whose
  message is a byte string without line feed and not ending in a carriage return, lists
  of such values, and dicts of such values with hashable keys. Encoding such a value
  raises nothing, and decoding its encoding, whatever follows it on the stream, gives the
  value back and leaves what follows. A set is not among them (see C2), nor is a
  \<^verbatim>\<open>long\<close>, for which nothing is written.
\<close>

definition line_text :: "string \<Rightarrow> bool" where
  "line_text s = (LF \<notin> set s \<and> (s = [] \<or> last s \<noteq> CR))"

fun decodable :: "pyval \<Rightarrow> bool" where
  "decodable PNone = True"
| "decodable (PBytes s) = True"
| "decodable (PInt i) = (- maxint - 1 \<le> i \<and> i \<le> maxint)"
| "decodable (PError m) = (case m of PBytes s \<Rightarrow> line_text s | _ \<Rightarrow> False)"
| "decodable (PList xs) = list_all decodable xs"
| "decodable (PDict kvs) =
     (list_all (\<lambda>p. hashable (fst p) \<and> decodable (fst p) \<and> decodable (snd p)) kvs
      \<and> distinct (map fst kvs))"
| "decodable v = False"

definition wire_bytes :: "pyval \<Rightarrow> string" where
  "wire_bytes v = (case ph_write v of Inl e \<Rightarrow> [] | Inr bs \<Rightarrow> bs)"

lemma write_all_Inr:
  "list_all (\<lambda>x. f x = Inr (g x)) xs \<Longrightarrow> write_all (map f xs) = Inr (concat (map g xs))"
  by (induction xs) simp_all

lemma handle_elems_round_trip:
  "list_all (\<lambda>x. \<forall>rest. handle_request (wire_bytes x @ rest) = Inr (x, rest)) xs \<Longrightarrow>
   handle_elems (length xs) (concat (map wire_bytes xs) @ rest) = Inr (xs, rest)"
  by (induction xs) (simp_all add: handle_elems_Suc)

fun interleave :: "('a \<times> 'a) list \<Rightarrow> 'a list" where
  "interleave [] = []"
| "interleave (p # ps) = fst p # snd p # interleave ps"

lemma interleave_props:
  "length (interleave ps) = 2 * length ps"
  "slice_even (interleave ps) = map fst ps"
  "slice_odd (interleave ps) = map snd ps"
  "concat (map wire_bytes (interleave kvs))
     = concat (map (\<lambda>p. wire_bytes (fst p) @ wire_bytes (snd p)) kvs)"
  by (induction ps, simp_all) (induction kvs, simp_all)

lemma set_interleave: "set (interleave ps) = fst ` set ps \<union> snd ` set ps"
  by (induction ps) auto

lemma update_new: "k \<notin> fst ` set d \<Longrightarrow> AList.update k v d = d @ [(k, v)]"
  by (induction d) auto

lemma dict_of_distinct:
  "distinct (map fst ps) \<Longrightarrow> list_all hashable (map fst ps) \<Longrightarrow>
   fst ` set ps \<inter> fst ` set d = {} \<Longrightarrow>
   dict_of d ps = Inr (d @ ps)"
proof (induction ps arbitrary: d)
  case Nil
  then show ?case by simp
next
  case (Cons p ps)
  obtain k v where p: "p = (k, v)" by (cases p)
  from Cons.prems p have "fst ` set ps \<inter> fst ` set (d @ [(k, v)]) = {}" by auto
  with Cons.IH [of "d @ [(k, v)]"] Cons.prems p show ?case
    by (simp add: dict_setitem_def update_new)
qed

lemma line_text_round_trip:
  assumes "line_text s"
  shows "readline (s @ crlf @ rest) = (s @ crlf, rest)" and "rstrip (s @ crlf) = s"
proof -
  from assms show "readline (s @ crlf @ rest) = (s @ crlf, rest)"
    by (simp add: line_text_def readline_line)
  from assms show "rstrip (s @ crlf) = s"
    by (cases s rule: rev_cases) (auto simp: line_text_def rstrip_def crlf_def CR_def LF_def)
qed

lemma str_of_int_minus1: "str_of_int (- 1) = ''-1''"
  by code_simp

lemma round_trip:
  "decodable v \<Longrightarrow>
     ph_write v = Inr (wire_bytes v) \<and> handle_request (wire_bytes v @ rest) = Inr (v, rest)"
proof (induction v arbitrary: rest)
  case PNone
  from readline_int_str_of_int [of "- 1" rest] show ?case
    by (simp add: wire_bytes_def str_of_int_minus1 handle_string_def)
next
  case (PBytes s)
  have "handle_string (str_of_int (int (length s)) @ crlf @ s @ crlf @ rest) = Inr (PBytes s, rest)"
    unfolding handle_string_def
    by (simp add: readline_int_str_of_int) (simp add: read_def drop_last2_def crlf_def nat_add_distrib)
  then show ?case
    by (simp add: wire_bytes_def write_bytes_def)
next
  case (PInt i)
  then show ?case
    by (simp add: wire_bytes_def handle_integer_def readline_int_str_of_int py_number_def)
next
  case (PError m)
  then obtain s where m: "m = PBytes s" and l: "line_text s"
    by (cases m) auto
  then show ?case
    by (simp add: wire_bytes_def handle_error_def percent_s_def line_text_round_trip)
next
  case (PList xs)
  then have ih: "\<And>x r. x \<in> set xs \<Longrightarrow>
      ph_write x = Inr (wire_bytes x) \<and> handle_request (wire_bytes x @ r) = Inr (x, r)"
    by (simp add: list_all_iff)
  then have "list_all (\<lambda>x. ph_write x = Inr (wire_bytes x)) xs"
    by (simp add: list_all_iff)
  from write_all_Inr [OF this]
  have wa: "write_all (map ph_write xs) = Inr (concat (map wire_bytes xs))" .
  have w: "wire_bytes (PList xs)
             = ''*'' @ str_of_int (int (length xs)) @ crlf @ concat (map wire_bytes xs)"
    by (subst wire_bytes_def) (simp add: wa after_header_def)
  have p: "ph_write (PList xs) = Inr (wire_bytes (PList xs))"
    by (simp add: w wa after_header_def)
  from ih have "list_all (\<lambda>x. \<forall>rest. handle_request (wire_bytes x @ rest) = Inr (x, rest)) xs"
    by (simp add: list_all_iff)
  from handle_elems_round_trip [OF this, of rest] w p show ?case
    by (simp add: readline_int_str_of_int)
next
  case (PDict kvs)
  from PDict.prems have d: "distinct (map fst kvs)" and h: "list_all hashable (map fst kvs)"
    and dec: "\<And>p. p \<in> set kvs \<Longrightarrow> decodable (fst p) \<and> decodable (snd p)"
    by (auto simp: list_all_iff)
  have ih: "ph_write x = Inr (wire_bytes x) \<and> handle_request (wire_bytes x @ r) = Inr (x, r)"
    if "x \<in> set (interleave kvs)" for x r
  proof -
    from that obtain p where p: "p \<in> set kvs" and x: "x = fst p \<or> x = snd p"
      by (auto simp: set_interleave)
    obtain a b where ab: "p = (a, b)" by (cases p)
    from x show ?thesis
    proof
      assume "x = fst p"
      with PDict.IH(1) [OF p, of a r] dec [OF p] ab show ?thesis
        by (simp add: fsts.intros)
    next
      assume "x = snd p"
      with PDict.IH(2) [OF p, of b r] dec [OF p] ab show ?thesis
        by (simp add: snds.intros)
    qed
  qed
  then have "list_all
      (\<lambda>p. write_all [ph_write (fst p), ph_write (snd p)]
             = Inr (wire_bytes (fst p) @ wire_bytes (snd p))) kvs"
    by (simp add: list_all_iff set_interleave)
  from write_all_Inr [OF this]
  have wa: "write_all (map (\<lambda>p. write_all [ph_write (fst p), ph_write (snd p)]) kvs)
              = Inr (concat (map (\<lambda>p. wire_bytes (fst p) @ wire_bytes (snd p)) kvs))" .
  have w: "wire_bytes (PDict kvs)
             = ''%'' @ str_of_int (int (length kvs)) @ crlf
                 @ concat (map (\<lambda>p. wire_bytes (fst p) @ wire_bytes (snd p)) kvs)"
    by (subst wire_bytes_def) (simp add: wa after_header_def del: write_all.simps)
  have p: "ph_write (PDict kvs) = Inr (wire_bytes (PDict kvs))"
    by (simp add: w wa after_header_def del: write_all.simps)
  from ih have "list_all (\<lambda>x. \<forall>rest. handle_request (wire_bytes x @ rest) = Inr (x, rest))
      (interleave kvs)"
    by (simp add: list_all_iff)
  from handle_elems_round_trip [OF this, of rest]
  have e: "handle_elems (2 * length kvs)
             (concat (map (\<lambda>p. wire_bytes (fst p) @ wire_bytes (snd p)) kvs) @ rest)
           = Inr (interleave kvs, rest)"
    by (simp add: interleave_props)
  have n: "nat (int (length kvs) * 2) = 2 * length kvs"
    by (simp add: nat_mult_distrib)
  from dict_of_distinct [OF d h, of "[]"] have "dict_of [] kvs = Inr kvs"
    by simp
  with e n w p show ?case
    by (simp add: readline_int_str_of_int interleave_props zip_map_fst_snd)
qed simp_all

subsection \<open>The connection loop\<close>

text \<open>
  One pass of the loop, by what \<^verbatim>\<open>get_response\<close> does with the decoded request. Neither
  reaches a second pass.
\<close>

lemma command_error_ends_connection:
  "handle_request (to_read c) = Inr (data, rest) \<Longrightarrow>
   get_response (kv c) data = (Inl (CommandError m a), s') \<Longrightarrow>
   connection_handler c = (Uncaught IndexError, c\<lparr>to_read := rest\<rparr>)"
  by (frule get_response_CommandError) (simp add: connection_handler.simps dispatch_def)

lemma response_ends_connection:
  "handle_request (to_read c) = Inr (data, rest) \<Longrightarrow>
   get_response (kv c) data = (Inr resp, s') \<Longrightarrow> ph_write resp = Inr bs \<Longrightarrow>
   connection_handler c =
     (Uncaught AttributeError, c\<lparr>to_read := rest, written := written c @ bs, kv := s'\<rparr>)"
  by (simp add: connection_handler.simps dispatch_def write_response_def)

text \<open>
  Whatever the stream holds, \<^verbatim>\<open>connection_handler\<close> writes at most one response
  before it ends, and when it has written one it ends with \<^verbatim>\<open>AttributeError\<close>.
\<close>

lemma at_most_one_response:
  "written (snd (connection_handler c)) = written c \<or>
   (fst (connection_handler c) = Uncaught AttributeError \<and>
    (\<exists>resp bs. ph_write resp = Inr bs \<and>
       written (snd (connection_handler c)) = written c @ bs))"
  by (subst (1 2 3) connection_handler.simps)
     (auto simp: dispatch_def write_response_def
       split: sum.splits prod.splits exc.splits list.splits dest: get_response_CommandError)

section \<open>The claims\<close>

subsection \<open>Requests used below\<close>

text \<open>
  The frames of the scenario, byte for byte: \<^verbatim>\<open>SET x 1\<close>, \<^verbatim>\<open>GET x\<close> and
  \<^verbatim>\<open>DELETE x\<close> as arrays of bulk strings.
\<close>

definition req_SET_x_1 :: string where
  "req_SET_x_1 =
     ''*3'' @ crlf @ ''$3'' @ crlf @ ''SET'' @ crlf @ ''$1'' @ crlf @ ''x'' @ crlf
       @ ''$1'' @ crlf @ ''1'' @ crlf"

definition req_GET_x :: string where
  "req_GET_x = ''*2'' @ crlf @ ''$3'' @ crlf @ ''GET'' @ crlf @ ''$1'' @ crlf @ ''x'' @ crlf"

definition req_DELETE_x :: string where
  "req_DELETE_x =
     ''*2'' @ crlf @ ''$6'' @ crlf @ ''DELETE'' @ crlf @ ''$1'' @ crlf @ ''x'' @ crlf"




subsection \<open>C1: a command error at dispatch\<close>

text \<open>
  C1 says that a request whose dispatch raises a \<^verbatim>\<open>CommandError\<close> is answered with an
  Error frame carrying the message, and that the connection stays open. The code catches
  the exception and then fails to build the frame: for the unknown command \<^verbatim>\<open>FOO\<close>,
  \<^verbatim>\<open>get_response\<close> raises the \<^verbatim>\<open>CommandError\<close> that names it, whose \<^verbatim>\<open>args\<close> is
  empty, and \<^verbatim>\<open>connection_handler\<close> ends with an uncaught \<^verbatim>\<open>IndexError\<close>, having
  written nothing. The empty request and a request that cannot be split end the same way.
\<close>

theorem unknown_command_ends_connection:
  "get_response [] (PList [PBytes ''FOO''])
     = (Inl (CommandError (PBytes ''Unrecognized command: FOO'') []), [])
   \<and> connection_handler
       \<lparr>to_read = ''*1'' @ crlf @ ''$3'' @ crlf @ ''FOO'' @ crlf @ req_GET_x,
        written = [], kv = []\<rparr>
     = (Uncaught IndexError, \<lparr>to_read = req_GET_x, written = [], kv = []\<rparr>)
   \<and> connection_handler \<lparr>to_read = ''*0'' @ crlf, written = [], kv = []\<rparr>
     = (Uncaught IndexError, \<lparr>to_read = [], written = [], kv = []\<rparr>)
   \<and> connection_handler \<lparr>to_read = '':5'' @ crlf, written = [], kv = []\<rparr>
     = (Uncaught IndexError, \<lparr>to_read = [], written = [], kv = []\<rparr>)"
  unfolding req_GET_x_def by code_simp

subsection \<open>C2: round trip of the frame kinds\<close>

text \<open>
  C2 says that decoding the encoding of a value gives the value back, for every frame
  kind, sets included. The encoder writes a set under the tag \<^verbatim>\<open>&\<close>; the decoder's
  table has no handler for that tag, so decoding the encoding of the set \<^verbatim>\<open>{'a'}\<close>
  raises \<^verbatim>\<open>CommandError('bad request')\<close>.
\<close>

theorem set_frame_not_decoded:
  "ph_write (PSet [PBytes ''a'']) = Inr (''&1'' @ crlf @ ''$1'' @ crlf @ ''a'' @ crlf)
   \<and> handle_request (''&1'' @ crlf @ ''$1'' @ crlf @ ''a'' @ crlf)
     = Inl (CommandError (PBytes ''bad request'') [])"
  by code_simp

subsection \<open>C3: the scenario\<close>

text \<open>
  C3 says that the four requests \<^verbatim>\<open>SET x 1\<close>, \<^verbatim>\<open>GET x\<close>, \<^verbatim>\<open>DELETE x\<close>,
  \<^verbatim>\<open>GET x\<close> sent on one fresh connection are answered in turn, the connection
  surviving each exchange. Decoded and dispatched one after the other, the requests do give
  the responses of the scenario (\<open>scenario_responses\<close>). The connection does not
  survive the first exchange: after \<^verbatim>\<open>:1\<close> has been written for the first request,
  \<^verbatim>\<open>write_response\<close> raises \<^verbatim>\<open>AttributeError\<close>, and \<^verbatim>\<open>connection_handler\<close>
  ends with the other three requests unread.
\<close>

theorem scenario_ends_after_first_response:
  "connection_handler
     \<lparr>to_read = req_SET_x_1 @ req_GET_x @ req_DELETE_x @ req_GET_x, written = [], kv = []\<rparr>
   = (Uncaught AttributeError,
      \<lparr>to_read = req_GET_x @ req_DELETE_x @ req_GET_x, written = '':1'' @ crlf,
       kv = [(PBytes ''x'', PBytes ''1'')]\<rparr>)"
  unfolding req_SET_x_1_def req_GET_x_def req_DELETE_x_def by code_simp

lemma scenario_responses:
  "handle_request req_SET_x_1 = Inr (PList [PBytes ''SET'', PBytes ''x'', PBytes ''1''], [])"
  "get_response [] (PList [PBytes ''SET'', PBytes ''x'', PBytes ''1''])
     = (Inr (PInt 1), [(PBytes ''x'', PBytes ''1'')])"
  "ph_write (PInt 1) = Inr ('':1'' @ crlf)"
  "handle_request req_GET_x = Inr (PList [PBytes ''GET'', PBytes ''x''], [])"
  "get_response [(PBytes ''x'', PBytes ''1'')] (PList [PBytes ''GET'', PBytes ''x''])
     = (Inr (PBytes ''1''), [(PBytes ''x'', PBytes ''1'')])"
  "ph_write (PBytes ''1'') = Inr (''$1'' @ crlf @ ''1'' @ crlf)"
  "handle_request req_DELETE_x = Inr (PList [PBytes ''DELETE'', PBytes ''x''], [])"
  "get_response [(PBytes ''x'', PBytes ''1'')] (PList [PBytes ''DELETE'', PBytes ''x''])
     = (Inr (PInt 1), [])"
  "get_response [] (PList [PBytes ''GET'', PBytes ''x'']) = (Inr PNone, [])"
  "ph_write PNone = Inr (''$-1'' @ crlf)"
  unfolding req_SET_x_1_def req_GET_x_def req_DELETE_x_def by code_simp+

subsection \<open>C4: MSET with an odd number of arguments\<close>




subsection \<open>C5: an exception of a handler that is not a command error\<close>

text \<open>
  C5 says that an exception raised inside a command handler, other than a command error,
  is caught at dispatch and answered with an Error frame. The loop catches
  \<^verbatim>\<open>CommandError\<close> only: \<^verbatim>\<open>GET\<close> with no argument raises \<^verbatim>\<open>TypeError\<close>, and
  \<^verbatim>\<open>connection_handler\<close> ends with it, having written nothing.
\<close>

theorem handler_fault_ends_connection:
  "connection_handler
     \<lparr>to_read = ''*1'' @ crlf @ ''$3'' @ crlf @ ''GET'' @ crlf @ req_GET_x,
      written = [], kv = []\<rparr>
   = (Uncaught TypeError, \<lparr>to_read = req_GET_x, written = [], kv = []\<rparr>)"
  unfolding req_GET_x_def by code_simp

text \<open>
  C5 as amended: when dispatching a decoded request raises an exception that is not a
  \<^verbatim>\<open>CommandError\<close>, \<^verbatim>\<open>connection_handler\<close> ends with that exception; no response is
  written for the request, and the store is as the handler left it.
\<close>

theorem other_exception_ends_connection:
  "handle_request (to_read c) = Inr (data, rest) \<Longrightarrow>
   get_response (kv c) data = (Inl e, s') \<Longrightarrow> \<not> is_CommandError e \<Longrightarrow>
   connection_handler c = (Uncaught e, c\<lparr>to_read := rest, kv := s'\<rparr>)"
  by (cases e) (simp_all add: connection_handler.simps dispatch_def)

theorem other_exception_ends_connection_witness:
  "handle_request (''*1'' @ crlf @ ''$3'' @ crlf @ ''GET'' @ crlf)
     = Inr (PList [PBytes ''GET''], [])
   \<and> get_response [] (PList [PBytes ''GET'']) = (Inl TypeError, [])
   \<and> \<not> is_CommandError TypeError
   \<and> connection_handler
       \<lparr>to_read = ''*1'' @ crlf @ ''$3'' @ crlf @ ''GET'' @ crlf, written = [], kv = []\<rparr>
     = (Uncaught TypeError, \<lparr>to_read = [], written = [], kv = []\<rparr>)"
proof -
  let ?c = "\<lparr>to_read = ''*1'' @ crlf @ ''$3'' @ crlf @ ''GET'' @ crlf, written = [], kv = []\<rparr>"
  have d: "handle_request (to_read ?c) = Inr (PList [PBytes ''GET''], [])" by code_simp
  have g: "get_response (kv ?c) (PList [PBytes ''GET'']) = (Inl TypeError, [])" by code_simp
  have n: "\<not> is_CommandError TypeError" by simp
  from other_exception_ends_connection [OF d g n] d g n show ?thesis by simp
qed

subsection \<open>C6: a stream that ends inside a bulk string\<close>




subsection \<open>C7: decoding a bulk string\<close>



subsection \<open>C8: FLUSH\<close>



subsection \<open>C9: values of other types\<close>




text \<open>
  The values for which \<^verbatim>\<open>_write\<close> returns having written nothing are those of the
  types that no branch handles, and among the numbers the \<^verbatim>\<open>long\<close>s. Not every other
  value is written: \<^verbatim>\<open>%d\<close> raises for a float that is an infinity or not a number.
\<close>

lemma nothing_written_iff:
  "ph_write v = Inr [] \<longleftrightarrow> (\<exists>t. v = PObject t) \<or> (\<exists>i. v = PLong i)"
proof (cases v)
  case (PFloat x)
  then show ?thesis by (cases x) simp_all
next
  case (PList xs)
  then show ?thesis by (simp add: after_header_def split: sum.splits)
next
  case (PTuple xs)
  then show ?thesis by (simp add: after_header_def split: sum.splits)
next
  case (PDict kvs)
  then show ?thesis by (simp add: after_header_def split: sum.splits)
next
  case (PSet xs)
  then show ?thesis by (simp add: after_header_def split: sum.splits)
qed (simp_all add: write_bytes_def)

text \<open>
  A \<^verbatim>\<open>long\<close> reaches the encoder from the decoder itself: an integer frame beyond the
  machine word is decoded to one, and nothing is written for it.
\<close>

lemma integer_frame_decoded:
  "handle_request ('':'' @ str_of_int i @ crlf @ rest) = Inr (py_number i, rest)"
  by (simp add: handle_integer_def readline_int_str_of_int)

lemma long_not_written:
  "maxint < i \<Longrightarrow>
     handle_request ('':'' @ str_of_int i @ crlf @ rest) = Inr (PLong i, rest)
     \<and> ph_write (PLong i) = Inr []"
  using integer_frame_decoded [of i rest] by (simp add: py_number_def del: handle_request.simps)

lemma float_examples:
  "ph_write (PFloat (Finite (- 7 / 2))) = Inr ('':-3'' @ crlf)"
  "ph_write (PFloat NaN) = Inl ValueError"
  "ph_write (PFloat PosInf) = Inl OverflowError"
  by code_simp+

subsection \<open>C10: GET and MGET do not change the store\<close>

text \<open>
  C10: for every store and every list of arguments, the store after \<^verbatim>\<open>get\<close> and after
  \<^verbatim>\<open>mget\<close> is the store before, whether the handler returns or raises; the same holds
  for the two commands dispatched by \<^verbatim>\<open>get_response\<close>.
\<close>

theorem get_mget_keep_store:
  "snd (get s args) = s \<and> snd (mget s args) = s
   \<and> snd (get_response s (PList (PBytes ''GET'' # args))) = s
   \<and> snd (get_response s (PList (PBytes ''MGET'' # args))) = s"
proof -
  have g: "snd (get s args) = s"
    by (cases "(s, args)" rule: get.cases) auto
  have m: "snd (mget s args) = s"
    by (simp add: mget_def split: sum.splits)
  from g m show ?thesis by (simp add: get_response_command)
qed

theorem get_mget_keep_store_witness:
  "get [(PBytes ''x'', PInt 1)] [PBytes ''x''] = (Inr (PInt 1), [(PBytes ''x'', PInt 1)])
   \<and> snd (mget [(PBytes ''x'', PInt 1)] [PBytes ''x'', PList []]) = [(PBytes ''x'', PInt 1)]"
proof -
  have a: "fst (get [(PBytes ''x'', PInt 1)] [PBytes ''x'']) = Inr (PInt 1)" by code_simp
  from get_mget_keep_store [of "[(PBytes ''x'', PInt 1)]" "[PBytes ''x'']"]
    get_mget_keep_store [of "[(PBytes ''x'', PInt 1)]" "[PBytes ''x'', PList []]"] a
  show ?thesis by (simp add: prod_eq_iff)
qed

end
